theory Spec2Isabelle
  imports Complex_Main
begin

section \<open>Python's decimal arithmetic\<close>

text \<open>
  The failures of the model: the error kinds of the specification (section 7), and the
  two signals of Python's \<open>decimal\<close> module that the arithmetic of the source can
  raise as exceptions, \<open>InvalidOperation\<close> and \<open>Overflow\<close> (both are trapped in the
  default context).
\<close>

datatype error =
    InvalidQuantity
  | InsufficientStock
  | NegativeStockError
  | InvalidPayment
  | InvalidStateTransition
  | DuplicateIdentifier
  | InvalidOperation
  | Overflow

text \<open>
  A \<open>Decimal\<close> is a finite number, given by its signed coefficient and its exponent
  (\<open>Dec c e\<close> is \<open>c\<close> times ten to the \<open>e\<close>), an infinity (\<open>True\<close> for the negative
  one), a quiet NaN or a signalling NaN. The sign of a zero and the payload of a NaN
  are not kept: no operation of the source depends on them.
\<close>

datatype Decimal = Dec int int | Infinity bool | NaN | sNaN

text \<open>The default context: 28 significant digits, exponents from \<open>Emin\<close> to \<open>Emax\<close>,
  rounding half to even.\<close>

definition prec :: int where "prec = 28"
definition Emax :: int where "Emax = 999999"
definition Emin :: int where "Emin = - 999999"
definition Etiny :: int where "Etiny = Emin - prec + 1"
definition Etop :: int where "Etop = Emax - prec + 1"

text \<open>The number of decimal digits of a coefficient.\<close>

function ndigits :: "int \<Rightarrow> nat" where
  "ndigits n = (if n < 10 then 1 else Suc (ndigits (n div 10)))"
  by pat_completeness auto
termination
  by (relation "measure nat") auto

declare ndigits.simps [simp del]

text \<open>
  The rounding every arithmetic result goes through (\<open>Decimal._fix\<close>). A zero keeps its
  exponent, clamped to the context's range. A result whose leading digit lies above
  \<open>Emax\<close> raises \<open>Overflow\<close>. A coefficient of more than 28 digits, or one reaching
  below the smallest exponent \<open>Etiny\<close>, loses its last \<open>k\<close> digits, rounded half to
  even; when the rounding carries into a 29th digit, the coefficient is cut by one
  more digit. Anything else is exact.
\<close>

definition dec_fix :: "int \<Rightarrow> int \<Rightarrow> error + Decimal" where
  "dec_fix c e =
     (if c = 0 then Inr (Dec 0 (min (max e Etiny) Emax))
      else
        let exp_min = int (ndigits \<bar>c\<bar>) + e - prec
        in if exp_min > Etop then Inl Overflow
           else
             let exp_min = max exp_min Etiny
             in if e < exp_min
                then
                  let k = nat (exp_min - e);
                      q = \<bar>c\<bar> div 10 ^ k;
                      r = \<bar>c\<bar> mod 10 ^ k;
                      q' = (if 2 * r > 10 ^ k \<or> (2 * r = 10 ^ k \<and> odd q) then q + 1 else q)
                  in if q' \<ge> 10 ^ nat prec
                     then (if exp_min + 1 > Etop then Inl Overflow
                           else Inr (Dec (sgn c * (q' div 10)) (exp_min + 1)))
                     else Inr (Dec (sgn c * q') exp_min)
                else Inr (Dec c e))"

fun dec_neg :: "Decimal \<Rightarrow> Decimal" where
  "dec_neg (Dec c e) = Dec (- c) e"
| "dec_neg (Infinity s) = Infinity (\<not> s)"
| "dec_neg NaN = NaN"
| "dec_neg sNaN = sNaN"

text \<open>
  \<open>a + b\<close>: a signalling NaN raises, a quiet NaN gives NaN, infinities of opposite
  sign raise; two finite numbers are added exactly at the smaller exponent and the
  sum is rounded.
\<close>

fun dec_add :: "Decimal \<Rightarrow> Decimal \<Rightarrow> error + Decimal" where
  "dec_add sNaN b = Inl InvalidOperation"
| "dec_add a sNaN = Inl InvalidOperation"
| "dec_add NaN b = Inr NaN"
| "dec_add a NaN = Inr NaN"
| "dec_add (Infinity s1) (Infinity s2) =
     (if s1 \<noteq> s2 then Inl InvalidOperation else Inr (Infinity s1))"
| "dec_add (Infinity s) (Dec c e) = Inr (Infinity s)"
| "dec_add (Dec c e) (Infinity s) = Inr (Infinity s)"
| "dec_add (Dec c1 e1) (Dec c2 e2) =
     (let e = min e1 e2
      in dec_fix (c1 * 10 ^ nat (e1 - e) + c2 * 10 ^ nat (e2 - e)) e)"

text \<open>\<open>a - b\<close> is \<open>a + (-b)\<close>.\<close>

definition dec_sub :: "Decimal \<Rightarrow> Decimal \<Rightarrow> error + Decimal" where
  "dec_sub a b = dec_add a (dec_neg b)"

text \<open>\<open>a * b\<close>: NaNs as for the sum, an infinity times zero raises; the product of two
  finite numbers is exact at the sum of the exponents, then rounded.\<close>

fun dec_mul :: "Decimal \<Rightarrow> Decimal \<Rightarrow> error + Decimal" where
  "dec_mul sNaN b = Inl InvalidOperation"
| "dec_mul a sNaN = Inl InvalidOperation"
| "dec_mul NaN b = Inr NaN"
| "dec_mul a NaN = Inr NaN"
| "dec_mul (Infinity s1) (Infinity s2) = Inr (Infinity (s1 \<noteq> s2))"
| "dec_mul (Infinity s) (Dec c e) =
     (if c = 0 then Inl InvalidOperation else Inr (Infinity (s \<noteq> (c < 0))))"
| "dec_mul (Dec c e) (Infinity s) =
     (if c = 0 then Inl InvalidOperation else Inr (Infinity (s \<noteq> (c < 0))))"
| "dec_mul (Dec c1 e1) (Dec c2 e2) = dec_fix (c1 * c2) (e1 + e2)"

text \<open>\<open>a > b\<close>: the comparison of the two numbers; any NaN raises.\<close>

fun dec_gt :: "Decimal \<Rightarrow> Decimal \<Rightarrow> error + bool" where
  "dec_gt (Dec c1 e1) (Dec c2 e2) =
     (let e = min e1 e2 in Inr (c1 * 10 ^ nat (e1 - e) > c2 * 10 ^ nat (e2 - e)))"
| "dec_gt (Infinity s) (Dec c e) = Inr (\<not> s)"
| "dec_gt (Dec c e) (Infinity s) = Inr s"
| "dec_gt (Infinity s1) (Infinity s2) = Inr (\<not> s1 \<and> s2)"
| "dec_gt a b = Inl InvalidOperation"

text \<open>\<open>a < b\<close> is \<open>b > a\<close>.\<close>

definition dec_lt :: "Decimal \<Rightarrow> Decimal \<Rightarrow> error + bool" where
  "dec_lt a b = dec_gt b a"

text \<open>The builtin \<open>max(a, b)\<close>: \<open>b\<close> if \<open>b > a\<close>, else \<open>a\<close>.\<close>

definition py_max :: "Decimal \<Rightarrow> Decimal \<Rightarrow> error + Decimal" where
  "py_max a b = (case dec_gt b a of Inl x \<Rightarrow> Inl x | Inr g \<Rightarrow> Inr (if g then b else a))"

text \<open>The builtin \<open>sum(xs, start)\<close>: the elements are added from the left, starting at
  \<open>start\<close>; the first addition that raises ends it.\<close>

fun py_sum :: "Decimal \<Rightarrow> Decimal list \<Rightarrow> error + Decimal" where
  "py_sum acc [] = Inr acc"
| "py_sum acc (x # xs) =
     (case dec_add acc x of Inl x \<Rightarrow> Inl x | Inr acc' \<Rightarrow> py_sum acc' xs)"

text \<open>The number a finite \<open>Decimal\<close> denotes (0 for an infinity or a NaN, which
  denote no number; the theorems below use it on finite decimals only).\<close>

fun dec_value :: "Decimal \<Rightarrow> rat" where
  "dec_value (Dec c e) = (if 0 \<le> e then of_int c * 10 ^ nat e else of_int c / 10 ^ nat (- e))"
| "dec_value d = 0"

text \<open>
  An amount of money is a finite \<open>Decimal\<close> with at most two fractional digits (the
  columns are declared with \<open>decimal_places=2\<close>); \<open>cents\<close> is such an amount in
  hundredths.
\<close>

fun is_money :: "Decimal \<Rightarrow> bool" where
  "is_money (Dec c e) = (- 2 \<le> e)"
| "is_money d = False"

fun cents :: "Decimal \<Rightarrow> int" where
  "cents (Dec c e) = c * 10 ^ nat (e + 2)"
| "cents d = 0"

section \<open>Data model of app/models.py\<close>

text \<open>
  Integer fields are Python's unbounded \<open>int\<close>, monetary fields are \<open>Decimal\<close>s. The
  timestamps of items, transactions and lines and the ORM back-references play no part
  in any method and are left out of the records. Items and transactions are stored
  rows, so their primary key is set; a line item has none until it is stored.
\<close>

datatype UnitType = ECER | GROSIR

datatype TransactionStatus = PENDING | COMPLETED | CANCELLED

record Item =
  Item_id :: int
  barcode :: string
  item_name :: string
  category_id :: int
  wholesale_cost_price :: Decimal
  wholesale_selling_price :: Decimal
  quantity_per_wholesale :: int
  retail_cost_price :: Decimal
  retail_selling_price :: Decimal
  stock_quantity :: int
  minimum_stock :: int
  is_active :: bool

record TransactionItem =
  TransactionItem_id :: "int option"
  transaction_id :: int
  item_id :: int
  quantity :: int
  unit_type :: UnitType
  unit_price :: Decimal
  total_price :: Decimal
  ecer_quantity :: int

record Transaction =
  Transaction_id :: int
  transaction_number :: string
  user_id :: int
  subtotal :: Decimal
  tax_amount :: Decimal
  discount_amount :: Decimal
  total_amount :: Decimal
  payment_amount :: Decimal
  change_amount :: Decimal
  status :: TransactionStatus
  txn_notes :: string
  transaction_items :: "TransactionItem list"

section \<open>Item unit logic\<close>

text \<open>\<open>Item.get_price_by_unit\<close>: the wholesale selling price for Grosir, else the retail one.\<close>

definition get_price_by_unit :: "Item \<Rightarrow> UnitType \<Rightarrow> Decimal" where
  "get_price_by_unit self ut =
     (if ut = GROSIR then wholesale_selling_price self else retail_selling_price self)"

text \<open>\<open>Item.convert_to_ecer_quantity\<close>: the quantity in base (Ecer) units.\<close>

definition convert_to_ecer_quantity :: "Item \<Rightarrow> int \<Rightarrow> UnitType \<Rightarrow> int" where
  "convert_to_ecer_quantity self qty ut =
     (if ut = GROSIR then qty * quantity_per_wholesale self else qty)"

text \<open>\<open>Item.can_fulfill_order\<close>: the value the method returns.\<close>

definition can_fulfill_order :: "Item \<Rightarrow> int \<Rightarrow> UnitType \<Rightarrow> bool" where
  "can_fulfill_order self qty ut =
     (let required_ecer_quantity = convert_to_ecer_quantity self qty ut
      in stock_quantity self \<ge> required_ecer_quantity)"

text \<open>
  The same method as a call on the object: the returned value together with the object
  after the call. The body assigns to no attribute of \<open>self\<close>.
\<close>

definition can_fulfill_order_call :: "Item \<Rightarrow> int \<Rightarrow> UnitType \<Rightarrow> bool \<times> Item" where
  "can_fulfill_order_call self qty ut = (can_fulfill_order self qty ut, self)"

text \<open>\<open>n\<close> calls in a row on the same object, with nothing else in between: the answers
  in call order and the object after the last call.\<close>

fun can_fulfill_order_repeat :: "nat \<Rightarrow> Item \<Rightarrow> int \<Rightarrow> UnitType \<Rightarrow> bool list \<times> Item" where
  "can_fulfill_order_repeat 0 self qty ut = ([], self)"
| "can_fulfill_order_repeat (Suc n) self qty ut =
     (case can_fulfill_order_call self qty ut of
        (answer, self') \<Rightarrow>
          (case can_fulfill_order_repeat n self' qty ut of
             (answers, self'') \<Rightarrow> (answer # answers, self'')))"

section \<open>Line item calculation\<close>

text \<open>
  \<open>TransactionItem.calculate_totals(item)\<close>: three assignments, in the source's order;
  the second reads the \<open>unit_price\<close> just stored, and \<open>Decimal(str(quantity))\<close> is the
  integer as a decimal with exponent 0. The result is the exception raised, if any,
  with the line as the call leaves it: when the product raises, the unit price has
  been assigned already.
\<close>

definition TransactionItem_calculate_totals ::
  "TransactionItem \<Rightarrow> Item \<Rightarrow> error option \<times> TransactionItem" where
  "TransactionItem_calculate_totals self item =
     (let s1 = self\<lparr>unit_price := get_price_by_unit item (unit_type self)\<rparr>
      in case dec_mul (Dec (quantity s1) 0) (unit_price s1) of
           Inl x \<Rightarrow> (Some x, s1)
         | Inr p \<Rightarrow>
             (let s2 = s1\<lparr>total_price := p\<rparr>;
                  s3 = s2\<lparr>ecer_quantity :=
                            convert_to_ecer_quantity item (quantity s2) (unit_type s2)\<rparr>
              in (None, s3)))"

section \<open>Transaction aggregation\<close>

text \<open>
  \<open>Transaction.calculate_totals\<close>: three assignments. The result is the exception
  raised, if any, with the transaction as the call leaves it: an assignment whose
  right-hand side raises is not made, the earlier ones are.
\<close>

definition Transaction_calculate_totals :: "Transaction \<Rightarrow> error option \<times> Transaction" where
  "Transaction_calculate_totals self =
     (case py_sum (Dec 0 0) (map total_price (transaction_items self)) of
        Inl x \<Rightarrow> (Some x, self)
      | Inr st \<Rightarrow>
          (let s1 = self\<lparr>subtotal := st\<rparr>
           in case dec_add (subtotal s1) (tax_amount s1) of
                Inl x \<Rightarrow> (Some x, s1)
              | Inr a \<Rightarrow>
                  (case dec_sub a (discount_amount s1) of
                     Inl x \<Rightarrow> (Some x, s1)
                   | Inr t \<Rightarrow>
                       (let s2 = s1\<lparr>total_amount := t\<rparr>
                        in case dec_sub (payment_amount s2) (total_amount s2) of
                             Inl x \<Rightarrow> (Some x, s2)
                           | Inr d \<Rightarrow>
                               (case py_max (Dec 0 0) d of
                                  Inl x \<Rightarrow> (Some x, s2)
                                | Inr c \<Rightarrow> (None, s2\<lparr>change_amount := c\<rparr>))))))"

text \<open>
  The amounts of a transaction are within range when the line totals, tax, discount
  and payment are amounts of money whose absolute values, in cents, add up to less
  than \<open>10^28\<close>: then no sum or difference of them needs a 29th digit.
\<close>

definition money_total :: "Transaction \<Rightarrow> int" where
  "money_total t =
     sum_list (map (\<lambda>l. \<bar>cents (total_price l)\<bar>) (transaction_items t))
     + \<bar>cents (tax_amount t)\<bar> + \<bar>cents (discount_amount t)\<bar> + \<bar>cents (payment_amount t)\<bar>"

definition money_transaction :: "Transaction \<Rightarrow> bool" where
  "money_transaction t =
     (list_all (\<lambda>l. is_money (total_price l)) (transaction_items t)
      \<and> is_money (tax_amount t) \<and> is_money (discount_amount t)
      \<and> is_money (payment_amount t)
      \<and> money_total t < 10 ^ nat prec)"

section \<open>What can happen to a transaction's lines after their creation\<close>

text \<open>
  The stored items, by primary key, and a transaction with its lines.
\<close>

record shop =
  stored_items :: "int \<Rightarrow> Item"
  sale :: Transaction

text \<open>
  \<open>TransactionItem.calculate_totals\<close> is the calculation that fills in a new line from
  the item as it is at the time of the sale; the source calls it nowhere else. The
  operations that can follow the creation of a line are: a change to a stored item,
  which is an assignment to any of its fields, a price change included; a call of one
  of the three methods of \<open>Item\<close>, which return a value and assign nothing; a call
  of \<open>Transaction.calculate_totals\<close>; and the creation of a further line, which is
  calculated from a stored item and, when the calculation returns, appended to the
  transaction's lines.
\<close>

datatype operation =
    Op_change_item int "Item \<Rightarrow> Item"
  | Op_Item_get_price_by_unit int UnitType
  | Op_Item_convert_to_ecer_quantity int int UnitType
  | Op_Item_can_fulfill_order int int UnitType
  | Op_Transaction_calculate_totals
  | Op_new_line TransactionItem int

fun apply_operation :: "operation \<Rightarrow> shop \<Rightarrow> shop" where
  "apply_operation (Op_change_item key change) s =
     s\<lparr>stored_items := (stored_items s)(key := change (stored_items s key))\<rparr>"
| "apply_operation (Op_Item_get_price_by_unit key ut) s = s"
| "apply_operation (Op_Item_convert_to_ecer_quantity key q ut) s = s"
| "apply_operation (Op_Item_can_fulfill_order key q ut) s =
     s\<lparr>stored_items := (stored_items s)
          (key := snd (can_fulfill_order_call (stored_items s key) q ut))\<rparr>"
| "apply_operation Op_Transaction_calculate_totals s =
     s\<lparr>sale := snd (Transaction_calculate_totals (sale s))\<rparr>"
| "apply_operation (Op_new_line l key) s =
     (case TransactionItem_calculate_totals l (stored_items s key) of
        (Some x, l') \<Rightarrow> s
      | (None, l') \<Rightarrow>
          s\<lparr>sale := (sale s)\<lparr>transaction_items := transaction_items (sale s) @ [l']\<rparr>\<rparr>)"

fun apply_operations :: "operation list \<Rightarrow> shop \<Rightarrow> shop" where
  "apply_operations [] s = s"
| "apply_operations (op # ops) s = apply_operations ops (apply_operation op s)"

section \<open>Stock ledger\<close>

text \<open>The \<open>StockMovement\<close> row of the source; \<open>created_at\<close> is the clock's reading.\<close>

record StockMovement =
  StockMovement_id :: "int option"
  movement_item_id :: int
  transaction_item_id :: "int option"
  movement_type :: string
  quantity_change :: int
  previous_stock :: int
  new_stock :: int
  reason :: string
  created_at :: nat
  created_by :: int

text \<open>
  Modelled from the spec: \<open>apply_movement\<close> of the Stock Ledger (section 4.4); the
  source declares the \<open>StockMovement\<close> row only and has no function that writes one.
  The four steps of the specification: read the stock, add the change, fail on a
  negative result with nothing applied, else write the stock and append the entry.
  The result is the failure, if any, with the item and the ledger after the call.
\<close>

definition apply_movement ::
  "Item \<Rightarrow> StockMovement list \<Rightarrow> string \<Rightarrow> int \<Rightarrow> string \<Rightarrow> int \<Rightarrow> int option \<Rightarrow> nat
     \<Rightarrow> error option \<times> Item \<times> StockMovement list" where
  "apply_movement item ledger mtype change rsn actor related_line_item now =
     (let previous = stock_quantity item;
          new = previous + change
      in if new < 0 then (Some NegativeStockError, item, ledger)
         else (None,
               item\<lparr>stock_quantity := new\<rparr>,
               ledger @ [\<lparr>StockMovement_id = None, movement_item_id = Item_id item,
                           transaction_item_id = related_line_item, movement_type = mtype,
                           quantity_change = change, previous_stock = previous,
                           new_stock = new, reason = rsn, created_at = now,
                           created_by = actor\<rparr>]))"

section \<open>Transaction aggregator\<close>

text \<open>
  Modelled from the spec: the Line Item Calculator with the two failures of section
  4.3, \<open>InvalidQuantity\<close> and \<open>InsufficientStock\<close>; the source has the calculation,
  \<open>TransactionItem.calculate_totals\<close>, and no check before it. The line is built for
  the transaction \<open>tid\<close> and the given item, with zero placeholders in the derived
  fields, then calculated by the source's method; an exception of the calculation is
  the calculator's failure.
\<close>

definition line_item_calculator ::
  "int \<Rightarrow> Item \<Rightarrow> int \<Rightarrow> UnitType \<Rightarrow> error + TransactionItem" where
  "line_item_calculator tid item q ut =
     (if q \<le> 0 then Inl InvalidQuantity
      else if \<not> can_fulfill_order item q ut then Inl InsufficientStock
      else case TransactionItem_calculate_totals
                  \<lparr>TransactionItem_id = None, transaction_id = tid, item_id = Item_id item,
                   quantity = q, unit_type = ut, unit_price = Dec 0 0, total_price = Dec 0 0,
                   ecer_quantity = 0\<rparr> item of
             (Some x, l) \<Rightarrow> Inl x
           | (None, l) \<Rightarrow> Inr l)"

text \<open>
  Modelled from the spec: the state the aggregator of section 4.5 works on, which the
  source does not have as one object: the transaction, whether \<open>finalize\<close> has
  succeeded on it, the stored items by primary key, and the stock ledger.
\<close>

record pos_state =
  txn :: Transaction
  finalized :: bool
  items :: "int \<Rightarrow> Item"
  ledger :: "StockMovement list"

text \<open>
  Modelled from the spec: \<open>add_line\<close>, \<open>finalize\<close>, \<open>commit\<close> and \<open>cancel\<close> of
  section 4.5, none of which is in the source. Each returns the failure, if any, with
  the state after the call. An operation outside its valid state fails with
  \<open>InvalidStateTransition\<close>; a failed operation leaves the state as it was, except
  \<open>commit\<close>, which keeps the debits made before the failing line. The sums and the
  totals are computed as the source computes them, and an exception of that
  arithmetic is a failure of the operation.
\<close>

definition add_line :: "Item \<Rightarrow> int \<Rightarrow> UnitType \<Rightarrow> pos_state \<Rightarrow> error option \<times> pos_state" where
  "add_line item q ut s =
     (if status (txn s) \<noteq> PENDING then (Some InvalidStateTransition, s)
      else case line_item_calculator (Transaction_id (txn s)) item q ut of
             Inl x \<Rightarrow> (Some x, s)
           | Inr l \<Rightarrow>
               (case py_sum (Dec 0 0) (map total_price (transaction_items (txn s) @ [l])) of
                  Inl x \<Rightarrow> (Some x, s)
                | Inr st \<Rightarrow>
                    (None, s\<lparr>txn := (txn s)\<lparr>
                       transaction_items := transaction_items (txn s) @ [l],
                       subtotal := st\<rparr>\<rparr>)))"

definition finalize ::
  "Decimal \<Rightarrow> Decimal \<Rightarrow> Decimal \<Rightarrow> pos_state \<Rightarrow> error option \<times> pos_state" where
  "finalize tax discount payment s =
     (if status (txn s) \<noteq> PENDING \<or> transaction_items (txn s) = []
      then (Some InvalidStateTransition, s)
      else case Transaction_calculate_totals
                  ((txn s)\<lparr>tax_amount := tax, discount_amount := discount,
                           payment_amount := payment\<rparr>) of
             (Some x, t) \<Rightarrow> (Some x, s)
           | (None, t) \<Rightarrow>
               (case dec_lt (payment_amount t) (total_amount t) of
                  Inl x \<Rightarrow> (Some x, s)
                | Inr below \<Rightarrow>
                    if below then (Some InvalidPayment, s)
                    else (None, s\<lparr>txn := t, finalized := True\<rparr>)))"

text \<open>The debits of \<open>commit\<close>, line by line in order, stopping at the first failure.\<close>

fun debit_lines ::
  "TransactionItem list \<Rightarrow> int \<Rightarrow> nat \<Rightarrow> (int \<Rightarrow> Item) \<Rightarrow> StockMovement list
     \<Rightarrow> error option \<times> (int \<Rightarrow> Item) \<times> StockMovement list" where
  "debit_lines [] actor now store led = (None, store, led)"
| "debit_lines (l # ls) actor now store led =
     (case apply_movement (store (item_id l)) led ''SALE'' (- ecer_quantity l) [] actor
             (TransactionItem_id l) now of
        (Some e, _) \<Rightarrow> (Some e, store, led)
      | (None, item', led') \<Rightarrow> debit_lines ls actor now (store(item_id l := item')) led')"

definition commit :: "nat \<Rightarrow> pos_state \<Rightarrow> error option \<times> pos_state" where
  "commit now s =
     (if status (txn s) \<noteq> PENDING \<or> \<not> finalized s then (Some InvalidStateTransition, s)
      else case debit_lines (transaction_items (txn s)) (user_id (txn s)) now (items s) (ledger s) of
             (Some e, store', led') \<Rightarrow> (Some e, s\<lparr>items := store', ledger := led'\<rparr>)
           | (None, store', led') \<Rightarrow>
               (None, s\<lparr>txn := (txn s)\<lparr>status := COMPLETED\<rparr>, items := store',
                         ledger := led'\<rparr>))"

definition cancel :: "pos_state \<Rightarrow> error option \<times> pos_state" where
  "cancel s =
     (if status (txn s) = PENDING then (None, s\<lparr>txn := (txn s)\<lparr>status := CANCELLED\<rparr>\<rparr>)
      else (Some InvalidStateTransition, s))"

text \<open>The aggregator as a machine: one step per operation, and a run of steps in which
  a failed operation is reported to the caller and the run goes on from the state left.\<close>

datatype aggregator_op =
    AddLine Item int UnitType
  | Finalize Decimal Decimal Decimal
  | Commit nat
  | Cancel

fun aggregator_step :: "aggregator_op \<Rightarrow> pos_state \<Rightarrow> error option \<times> pos_state" where
  "aggregator_step (AddLine item q ut) s = add_line item q ut s"
| "aggregator_step (Finalize tax discount payment) s = finalize tax discount payment s"
| "aggregator_step (Commit now) s = commit now s"
| "aggregator_step Cancel s = cancel s"

fun aggregator_run :: "aggregator_op list \<Rightarrow> pos_state \<Rightarrow> pos_state" where
  "aggregator_run [] s = s"
| "aggregator_run (op # ops) s = aggregator_run ops (snd (aggregator_step op s))"

section \<open>Sample data\<close>

text \<open>The item of the specification's scenarios: 10 base units in stock, 5 per pack;
  a pack sells at 5000.00, a unit at 1100.00.\<close>

definition sample_item :: Item where
  "sample_item = \<lparr>Item_id = 1, barcode = ''A1B2C3D4E5'', item_name = ''Gula'',
     category_id = 1, wholesale_cost_price = Dec 400000 (- 2),
     wholesale_selling_price = Dec 500000 (- 2), quantity_per_wholesale = 5,
     retail_cost_price = Dec 90000 (- 2), retail_selling_price = Dec 110000 (- 2),
     stock_quantity = 10, minimum_stock = 2, is_active = True\<rparr>"

text \<open>A line as it is built before \<open>calculate_totals\<close> runs: quantity and unit set,
  zero placeholders in the derived fields.\<close>

definition blank_line :: "int \<Rightarrow> UnitType \<Rightarrow> TransactionItem" where
  "blank_line q ut = \<lparr>TransactionItem_id = None, transaction_id = 1, item_id = 1,
     quantity = q, unit_type = ut, unit_price = Dec 0 0, total_price = Dec 0 0,
     ecer_quantity = 0\<rparr>"

text \<open>A line of one retail unit with the given price and total.\<close>

definition priced_line :: "Decimal \<Rightarrow> TransactionItem" where
  "priced_line p = \<lparr>TransactionItem_id = None, transaction_id = 1, item_id = 1,
     quantity = 1, unit_type = ECER, unit_price = p, total_price = p, ecer_quantity = 1\<rparr>"

text \<open>A pending transaction with the given lines, tax, discount and payment; the
  derived amounts are the column defaults.\<close>

definition sample_transaction ::
  "TransactionItem list \<Rightarrow> Decimal \<Rightarrow> Decimal \<Rightarrow> Decimal \<Rightarrow> Transaction" where
  "sample_transaction ls tax discount payment =
     \<lparr>Transaction_id = 1, transaction_number = ''TXN202401011200000001'', user_id = 1,
      subtotal = Dec 0 0, tax_amount = tax, discount_amount = discount,
      total_amount = Dec 0 0, payment_amount = payment, change_amount = Dec 0 0,
      status = PENDING, txn_notes = [], transaction_items = ls\<rparr>"

text \<open>A new sale: the pending transaction with no lines, the sample item stored under
  every key, an empty ledger.\<close>

definition sample_state :: pos_state where
  "sample_state = \<lparr>txn = sample_transaction [] (Dec 0 0) (Dec 0 0) (Dec 0 0),
     finalized = False, items = (\<lambda>_. sample_item), ledger = []\<rparr>"

text \<open>The sale of one pack, paid exactly, before and after \<open>commit\<close>.\<close>

definition sample_finalized :: pos_state where
  "sample_finalized =
     aggregator_run [AddLine sample_item 1 GROSIR, Finalize (Dec 500 0) (Dec 0 0) (Dec 5500 0)]
       sample_state"

definition sample_sale :: pos_state where
  "sample_sale = snd (aggregator_step (Commit 7) sample_finalized)"

text \<open>The transaction of the specification's scenarios: lines of 10000 and 5000, tax
  1500, discount 500, with the given payment; and a sale that holds it.\<close>

definition scenario_transaction :: "Decimal \<Rightarrow> Transaction" where
  "scenario_transaction payment =
     sample_transaction [priced_line (Dec 10000 0), priced_line (Dec 5000 0)]
       (Dec 1500 0) (Dec 500 0) payment"

definition scenario_state :: pos_state where
  "scenario_state = sample_state\<lparr>txn := scenario_transaction (Dec 0 0)\<rparr>"

text \<open>A shop whose transaction has one line of two retail units, calculated at the
  sample item's price.\<close>

definition sold_shop :: shop where
  "sold_shop = \<lparr>stored_items = (\<lambda>_. sample_item),
     sale = sample_transaction
              [snd (TransactionItem_calculate_totals (blank_line 2 ECER) sample_item)]
              (Dec 0 0) (Dec 0 0) (Dec 0 0)\<rparr>"

text \<open>Amounts of 28 and 29 digits: a line total of \<open>9999999999999999999999999999\<close>,
  and a transaction with that line, tax 0.6 and discount
  \<open>9999999999999999999999999999.8\<close>.\<close>

definition huge_line :: TransactionItem where
  "huge_line = priced_line (Dec 9999999999999999999999999999 0)"

definition huge_transaction :: Transaction where
  "huge_transaction =
     sample_transaction [huge_line] (Dec 6 (- 1)) (Dec 99999999999999999999999999998 (- 1))
       (Dec 0 0)"

text \<open>A transaction with no lines, tax 100 and discount 500.\<close>

definition discounted_empty :: Transaction where
  "discounted_empty = sample_transaction [] (Dec 100 0) (Dec 500 0) (Dec 0 0)"

text \<open>A transaction whose lines are the huge line and a line of one cent.\<close>

definition rounding_transaction :: Transaction where
  "rounding_transaction =
     sample_transaction [huge_line, priced_line (Dec 1 (- 2))] (Dec 0 0) (Dec 0 0) (Dec 0 0)"



text \<open>What follows a sale: the item's retail price is raised to 1500.00, its stock is
  queried, the transaction's totals are recomputed and a further line of one retail
  unit is created.\<close>

definition reprice_and_sell :: "operation list" where
  "reprice_and_sell =
     [Op_change_item 1 (\<lambda>i. i\<lparr>retail_selling_price := Dec 150000 (- 2)\<rparr>),
      Op_Item_can_fulfill_order 1 1 ECER,
      Op_Transaction_calculate_totals,
      Op_new_line (blank_line 1 ECER) 1]"

section \<open>Decimal arithmetic on amounts of money\<close>

lemma ndigits_le: "n < 10 ^ k \<Longrightarrow> 0 < k \<Longrightarrow> ndigits n \<le> k"
proof (induction n arbitrary: k rule: ndigits.induct)
  case (1 n)
  show ?case
  proof (cases "n < 10")
    case True
    with 1(3) show ?thesis by (subst ndigits.simps) simp
  next
    case False
    then have "10 \<le> n" by simp
    with 1(2) have "(10::int) < 10 ^ k" by simp
    then have "k \<noteq> 1" by auto
    with 1(3) obtain j where k: "k = Suc j" and j: "0 < j" by (cases k) auto
    from 1(2) k have "n < 10 * 10 ^ j" by simp
    then have "n div 10 < 10 ^ j" by linarith
    with 1(1) [OF False] j have "ndigits (n div 10) \<le> j" by blast
    with False k show ?thesis by (subst ndigits.simps) simp
  qed
qed

lemma dec_fix_exact:
  assumes "c \<noteq> 0" and "\<bar>c\<bar> < 10 ^ nat prec" and "Etiny \<le> e" and "e \<le> Etop"
  shows "dec_fix c e = Inr (Dec c e)"
proof -
  have "ndigits \<bar>c\<bar> \<le> nat prec" using assms(2) by (rule ndigits_le) (simp add: prec_def)
  then have "int (ndigits \<bar>c\<bar>) \<le> prec" by (simp add: prec_def)
  with assms show ?thesis by (simp add: dec_fix_def Let_def)
qed

lemma dec_fix_money:
  assumes e: "- 2 \<le> e" and b: "\<bar>c * 10 ^ nat (e + 2)\<bar> < 10 ^ nat prec"
  shows "\<exists>r. dec_fix c e = Inr r \<and> is_money r \<and> cents r = c * 10 ^ nat (e + 2)"
proof (cases "c = 0")
  case True
  with e show ?thesis by (simp add: dec_fix_def Etiny_def Emin_def Emax_def prec_def)
next
  case False
  then have c1: "1 \<le> \<bar>c\<bar>" by simp
  have p1: "(1::int) \<le> 10 ^ nat (e + 2)" by simp
  have eq: "\<bar>c * 10 ^ nat (e + 2)\<bar> = \<bar>c\<bar> * 10 ^ nat (e + 2)" by (simp add: abs_mult)
  have up: "\<bar>c\<bar> \<le> \<bar>c\<bar> * 10 ^ nat (e + 2)"
    using mult_left_mono [OF p1, of "\<bar>c\<bar>"] by simp
  have cb: "\<bar>c\<bar> < 10 ^ nat prec" using up b eq by linarith
  have lo: "(10::int) ^ nat (e + 2) \<le> \<bar>c\<bar> * 10 ^ nat (e + 2)"
    using mult_right_mono [OF c1, of "10 ^ nat (e + 2)"] by simp
  have "(10::int) ^ nat (e + 2) < 10 ^ nat prec" using lo b eq by linarith
  then have "nat (e + 2) < nat prec" by simp
  then have "e \<le> Etop" by (simp add: prec_def Etop_def Emax_def)
  moreover have "Etiny \<le> e" using e by (simp add: Etiny_def Emin_def prec_def)
  ultimately have "dec_fix c e = Inr (Dec c e)" using False cb by (intro dec_fix_exact)
  with e show ?thesis by simp
qed

lemma dec_add_money:
  assumes "is_money a" and "is_money b" and "\<bar>cents a + cents b\<bar> < 10 ^ nat prec"
  shows "\<exists>r. dec_add a b = Inr r \<and> is_money r \<and> cents r = cents a + cents b"
proof -
  from assms(1) obtain c1 e1 where a: "a = Dec c1 e1" and e1: "- 2 \<le> e1" by (cases a) auto
  from assms(2) obtain c2 e2 where b: "b = Dec c2 e2" and e2: "- 2 \<le> e2" by (cases b) auto
  define e where "e = min e1 e2"
  define c where "c = c1 * 10 ^ nat (e1 - e) + c2 * 10 ^ nat (e2 - e)"
  have e: "- 2 \<le> e" "e \<le> e1" "e \<le> e2" using e1 e2 by (simp_all add: e_def)
  have n1: "nat (e1 + 2) = nat (e1 - e) + nat (e + 2)" using e by simp
  have n2: "nat (e2 + 2) = nat (e2 - e) + nat (e + 2)" using e by simp
  have sum: "c * 10 ^ nat (e + 2) = cents a + cents b"
    by (simp add: a b c_def n1 n2 power_add algebra_simps)
  with assms(3) have "\<bar>c * 10 ^ nat (e + 2)\<bar> < 10 ^ nat prec" by simp
  from dec_fix_money [OF e(1) this] sum
  show ?thesis by (simp add: a b c_def e_def Let_def)
qed

lemma dec_neg_money [simp]:
  "is_money (dec_neg a) = is_money a" "cents (dec_neg a) = - cents a"
  by (cases a; simp)+

lemma dec_sub_money:
  assumes "is_money a" and "is_money b" and "\<bar>cents a - cents b\<bar> < 10 ^ nat prec"
  shows "\<exists>r. dec_sub a b = Inr r \<and> is_money r \<and> cents r = cents a - cents b"
  using dec_add_money [of a "dec_neg b"] assms by (simp add: dec_sub_def)

lemma dec_mul_int_money:
  assumes "is_money p" and "\<bar>q * cents p\<bar> < 10 ^ nat prec"
  shows "\<exists>r. dec_mul (Dec q 0) p = Inr r \<and> is_money r \<and> cents r = q * cents p"
proof -
  from assms(1) obtain c e where p: "p = Dec c e" and e: "- 2 \<le> e" by (cases p) auto
  have "\<bar>q * c * 10 ^ nat (e + 2)\<bar> < 10 ^ nat prec" using assms(2) by (simp add: p mult.assoc)
  from dec_fix_money [OF e this] show ?thesis by (simp add: p mult.assoc)
qed

lemma dec_gt_money:
  assumes "is_money a" and "is_money b"
  shows "dec_gt a b = Inr (cents b < cents a)"
proof -
  from assms(1) obtain c1 e1 where a: "a = Dec c1 e1" and e1: "- 2 \<le> e1" by (cases a) auto
  from assms(2) obtain c2 e2 where b: "b = Dec c2 e2" and e2: "- 2 \<le> e2" by (cases b) auto
  define e where "e = min e1 e2"
  have e: "- 2 \<le> e" "e \<le> e1" "e \<le> e2" using e1 e2 by (simp_all add: e_def)
  have n1: "nat (e1 + 2) = nat (e1 - e) + nat (e + 2)" using e by simp
  have n2: "nat (e2 + 2) = nat (e2 - e) + nat (e + 2)" using e by simp
  have "(c2 * 10 ^ nat (e2 - e) < c1 * 10 ^ nat (e1 - e))
      = (c2 * 10 ^ nat (e2 - e) * 10 ^ nat (e + 2) < c1 * 10 ^ nat (e1 - e) * 10 ^ nat (e + 2))"
    by simp
  also have "\<dots> = (cents b < cents a)"
    by (simp add: a b n1 n2 power_add mult.assoc)
  finally show ?thesis by (simp add: a b e_def Let_def)
qed

lemma py_max_zero_money:
  assumes "is_money d"
  shows "\<exists>r. py_max (Dec 0 0) d = Inr r \<and> is_money r \<and> cents r = max 0 (cents d)"
  using dec_gt_money [of d "Dec 0 0"] assms by (simp add: py_max_def)

lemma py_sum_money:
  assumes "is_money acc" and "list_all is_money xs"
    and "\<bar>cents acc\<bar> + sum_list (map (\<lambda>x. \<bar>cents x\<bar>) xs) < 10 ^ nat prec"
  shows "\<exists>r. py_sum acc xs = Inr r \<and> is_money r
            \<and> cents r = cents acc + sum_list (map cents xs)"
  using assms
proof (induction xs arbitrary: acc)
  case Nil
  then show ?case by simp
next
  case (Cons x xs)
  have nonneg: "0 \<le> sum_list (map (\<lambda>x. \<bar>cents x\<bar>) xs)" by (rule sum_list_nonneg) auto
  from Cons.prems have x: "is_money x" and xs: "list_all is_money xs" by simp_all
  from Cons.prems(3) nonneg have "\<bar>cents acc + cents x\<bar> < 10 ^ nat prec" by simp
  from dec_add_money [OF Cons.prems(1) x this]
  obtain r where r: "dec_add acc x = Inr r" "is_money r" "cents r = cents acc + cents x"
    by blast
  from Cons.prems(3) r(3)
  have "\<bar>cents r\<bar> + sum_list (map (\<lambda>x. \<bar>cents x\<bar>) xs) < 10 ^ nat prec" by simp
  from Cons.IH [OF r(2) xs this] r show ?case by (simp add: add.assoc)
qed

lemma money_value: "is_money d \<Longrightarrow> dec_value d = of_int (cents d) / 100"
proof (cases d)
  case (Dec c e)
  assume "is_money d"
  with Dec have e: "- 2 \<le> e" by simp
  show ?thesis
  proof (cases "0 \<le> e")
    case True
    then have "nat (e + 2) = nat e + 2" by simp
    with True Dec show ?thesis by (simp add: power_add)
  next
    case False
    with e have "e = - 1 \<or> e = - 2" by auto
    with Dec show ?thesis by auto
  qed
qed simp_all

lemma money_values_sum:
  "list_all is_money xs
    \<Longrightarrow> sum_list (map dec_value xs) = of_int (sum_list (map cents xs)) / 100"
  by (induction xs) (simp_all add: money_value add_divide_distrib)

section \<open>What the two calculations write\<close>

lemma sum_list_abs_le: "\<bar>sum_list (map f xs)\<bar> \<le> sum_list (map (\<lambda>x. \<bar>f x :: int\<bar>) xs)"
  by (induction xs) auto

lemma Transaction_calculate_totals_money:
  assumes "money_transaction t"
  shows "\<exists>S T C. Transaction_calculate_totals t
                  = (None, t\<lparr>subtotal := S, total_amount := T, change_amount := C\<rparr>)
           \<and> is_money S \<and> is_money T \<and> is_money C
           \<and> cents S = sum_list (map (\<lambda>l. cents (total_price l)) (transaction_items t))
           \<and> cents T = cents S + cents (tax_amount t) - cents (discount_amount t)
           \<and> cents C = max 0 (cents (payment_amount t) - cents T)"
proof -
  define A where "A = sum_list (map (\<lambda>l. \<bar>cents (total_price l)\<bar>) (transaction_items t))"
  from assms have lines: "list_all is_money (map total_price (transaction_items t))"
    and tax: "is_money (tax_amount t)" and disc: "is_money (discount_amount t)"
    and pay: "is_money (payment_amount t)"
    and bound: "A + \<bar>cents (tax_amount t)\<bar> + \<bar>cents (discount_amount t)\<bar>
                  + \<bar>cents (payment_amount t)\<bar> < 10 ^ nat prec"
    by (simp_all add: money_transaction_def money_total_def A_def list.pred_map comp_def)
  have A: "\<bar>sum_list (map (\<lambda>l. cents (total_price l)) (transaction_items t))\<bar> \<le> A"
    unfolding A_def by (rule sum_list_abs_le)
  have A0: "0 \<le> A" using A by linarith
  have "\<bar>cents (Dec 0 0)\<bar> + sum_list (map (\<lambda>x. \<bar>cents x\<bar>) (map total_price (transaction_items t)))
          < 10 ^ nat prec"
    using bound by (simp add: A_def comp_def)
  from py_sum_money [OF _ lines this]
  obtain S where S: "py_sum (Dec 0 0) (map total_price (transaction_items t)) = Inr S"
    "is_money S" "cents S = sum_list (map (\<lambda>l. cents (total_price l)) (transaction_items t))"
    by (auto simp add: comp_def)
  from S(3) A have SA: "\<bar>cents S\<bar> \<le> A" by simp
  have "\<bar>cents S + cents (tax_amount t)\<bar> < 10 ^ nat prec" using SA bound by linarith
  from dec_add_money [OF S(2) tax this]
  obtain U where U: "dec_add S (tax_amount t) = Inr U" "is_money U"
    "cents U = cents S + cents (tax_amount t)" by blast
  have "\<bar>cents U - cents (discount_amount t)\<bar> < 10 ^ nat prec" using U(3) SA bound by linarith
  from dec_sub_money [OF U(2) disc this]
  obtain T where T: "dec_sub U (discount_amount t) = Inr T" "is_money T"
    "cents T = cents U - cents (discount_amount t)" by blast
  have "\<bar>cents (payment_amount t) - cents T\<bar> < 10 ^ nat prec"
    using T(3) U(3) SA bound by linarith
  from dec_sub_money [OF pay T(2) this]
  obtain D where D: "dec_sub (payment_amount t) T = Inr D" "is_money D"
    "cents D = cents (payment_amount t) - cents T" by blast
  from py_max_zero_money [OF D(2)]
  obtain C where C: "py_max (Dec 0 0) D = Inr C" "is_money C" "cents C = max 0 (cents D)"
    by blast
  have r: "Transaction_calculate_totals t
          = (None, t\<lparr>subtotal := S, total_amount := T, change_amount := C\<rparr>)"
    by (simp add: Transaction_calculate_totals_def Let_def S(1) U(1) T(1) D(1) C(1))
  have cT: "cents T = cents S + cents (tax_amount t) - cents (discount_amount t)"
    by (simp add: T(3) U(3))
  have cC: "cents C = max 0 (cents (payment_amount t) - cents T)"
    by (simp add: C(3) D(3))
  from r S(2) T(2) C(2) S(3) cT cC show ?thesis
    by (intro exI [of _ S] exI [of _ T] exI [of _ C]) simp
qed

lemma Transaction_calculate_totals_fresh:
  "fst (Transaction_calculate_totals t) = None
    \<Longrightarrow> Transaction_calculate_totals (t\<lparr>subtotal := s, total_amount := a, change_amount := c\<rparr>)
          = Transaction_calculate_totals t"
  by (auto simp add: Transaction_calculate_totals_def Let_def split: sum.splits)

lemma Transaction_calculate_totals_keeps:
  "transaction_items (snd (Transaction_calculate_totals t)) = transaction_items t"
  "status (snd (Transaction_calculate_totals t)) = status t"
  "tax_amount (snd (Transaction_calculate_totals t)) = tax_amount t"
  "discount_amount (snd (Transaction_calculate_totals t)) = discount_amount t"
  "payment_amount (snd (Transaction_calculate_totals t)) = payment_amount t"
  by (simp_all add: Transaction_calculate_totals_def Let_def split: sum.splits)

lemma TransactionItem_calculate_totals_money:
  assumes "is_money (get_price_by_unit item (unit_type ti))"
    and "\<bar>quantity ti * cents (get_price_by_unit item (unit_type ti))\<bar> < 10 ^ nat prec"
  shows "\<exists>T. TransactionItem_calculate_totals ti item
               = (None, ti\<lparr>unit_price := get_price_by_unit item (unit_type ti),
                           total_price := T,
                           ecer_quantity :=
                             convert_to_ecer_quantity item (quantity ti) (unit_type ti)\<rparr>)
            \<and> is_money T
            \<and> cents T = quantity ti * cents (get_price_by_unit item (unit_type ti))"
proof -
  from dec_mul_int_money [OF assms]
  obtain T where T: "dec_mul (Dec (quantity ti) 0) (get_price_by_unit item (unit_type ti)) = Inr T"
    "is_money T" "cents T = quantity ti * cents (get_price_by_unit item (unit_type ti))"
    by blast
  then show ?thesis
    by (intro exI [of _ T]) (simp add: TransactionItem_calculate_totals_def Let_def)
qed


lemma calculate_totals_values:
  assumes "money_transaction t"
  shows "\<exists>t'. Transaction_calculate_totals t = (None, t')
           \<and> t' = t\<lparr>subtotal := subtotal t', total_amount := total_amount t',
                     change_amount := change_amount t'\<rparr>
           \<and> dec_value (subtotal t')
               = sum_list (map (\<lambda>l. dec_value (total_price l)) (transaction_items t))
           \<and> dec_value (total_amount t')
               = dec_value (subtotal t') + dec_value (tax_amount t) - dec_value (discount_amount t)
           \<and> dec_value (change_amount t')
               = max 0 (dec_value (payment_amount t) - dec_value (total_amount t'))"
proof -
  from Transaction_calculate_totals_money [OF assms]
  obtain S T C where r: "Transaction_calculate_totals t
                  = (None, t\<lparr>subtotal := S, total_amount := T, change_amount := C\<rparr>)"
    and m: "is_money S" "is_money T" "is_money C"
    and S: "cents S = sum_list (map (\<lambda>l. cents (total_price l)) (transaction_items t))"
    and T: "cents T = cents S + cents (tax_amount t) - cents (discount_amount t)"
    and C: "cents C = max 0 (cents (payment_amount t) - cents T)"
    by blast
  from assms have lines: "list_all is_money (map total_price (transaction_items t))"
    and tax: "is_money (tax_amount t)" and disc: "is_money (discount_amount t)"
    and pay: "is_money (payment_amount t)"
    by (simp_all add: money_transaction_def list.pred_map comp_def)
  have vS: "dec_value S = sum_list (map (\<lambda>l. dec_value (total_price l)) (transaction_items t))"
    using money_values_sum [OF lines] by (simp add: money_value [OF m(1)] S comp_def)
  have vT: "dec_value T = dec_value S + dec_value (tax_amount t) - dec_value (discount_amount t)"
    by (simp add: money_value m tax disc T add_divide_distrib diff_divide_distrib)
  have vC: "dec_value C = max 0 (dec_value (payment_amount t) - dec_value T)"
    by (simp add: money_value m pay C max_def diff_divide_distrib)
  show ?thesis using r vS vT vC by simp
qed

lemma py_max_zero_not_negative:
  "py_max (Dec 0 0) d = Inr c \<Longrightarrow> dec_lt c (Dec 0 0) = Inr False"
  by (cases d)
    (auto simp add: py_max_def dec_lt_def Let_def zero_less_mult_iff mult_less_0_iff
       split: if_splits)

lemma Transaction_calculate_totals_change:
  "fst (Transaction_calculate_totals t) = None
    \<Longrightarrow> \<exists>d. py_max (Dec 0 0) d = Inr (change_amount (snd (Transaction_calculate_totals t)))"
  by (auto simp add: Transaction_calculate_totals_def Let_def split: sum.splits)

section \<open>Item unit logic: conversion and the stock check\<close>

text \<open>
  Claim C3. For every item and every quantity \<open>q > 0\<close>, the base quantity of \<open>q\<close> retail
  (Ecer) units is \<open>q\<close>, and that of \<open>q\<close> wholesale (Grosir) units is
  \<open>q * quantity_per_wholesale\<close>.
\<close>

theorem convert_to_ecer_quantity_units:
  assumes "0 < q"
  shows "convert_to_ecer_quantity item q ECER = q
         \<and> convert_to_ecer_quantity item q GROSIR = q * quantity_per_wholesale item"
  by (simp add: convert_to_ecer_quantity_def)

theorem convert_to_ecer_quantity_units_witness:
  "(0::int) < 3 \<and> convert_to_ecer_quantity sample_item 3 ECER = 3
   \<and> convert_to_ecer_quantity sample_item 3 GROSIR = 15"
  using convert_to_ecer_quantity_units [of 3 sample_item]
  by (simp add: sample_item_def)

lemma can_fulfill_order_repeat_eq:
  "can_fulfill_order_repeat n item q ut = (replicate n (can_fulfill_order item q ut), item)"
  by (induction n) (simp_all add: can_fulfill_order_call_def)

text \<open>
  Claim C8. \<open>can_fulfill_order\<close> answers true exactly when the stock is at least the
  requested quantity converted to base units; the call leaves the item as it was, so
  any number of calls in a row, with no stock movement in between, all give that same
  answer and leave the item unchanged.
\<close>

theorem can_fulfill_order_read_only:
  "can_fulfill_order item q ut = (stock_quantity item \<ge> convert_to_ecer_quantity item q ut)
   \<and> can_fulfill_order_call item q ut = (can_fulfill_order item q ut, item)
   \<and> can_fulfill_order_repeat n item q ut = (replicate n (can_fulfill_order item q ut), item)"
  by (simp add: can_fulfill_order_def can_fulfill_order_call_def can_fulfill_order_repeat_eq)

section \<open>Line items\<close>




lemma apply_operation_keeps_lines:
  "\<exists>new. transaction_items (sale (apply_operation op s)) = transaction_items (sale s) @ new"
  by (cases op) (auto simp add: Transaction_calculate_totals_keeps split: prod.splits option.splits)

lemma apply_operations_keep_lines:
  "\<exists>new. transaction_items (sale (apply_operations ops s)) = transaction_items (sale s) @ new"
proof (induction ops arbitrary: s)
  case Nil
  then show ?case by simp
next
  case (Cons op ops)
  from apply_operation_keeps_lines [of op s]
  obtain new1 where 1: "transaction_items (sale (apply_operation op s))
      = transaction_items (sale s) @ new1" by blast
  from Cons.IH [of "apply_operation op s"]
  obtain new2 where 2: "transaction_items (sale (apply_operations ops (apply_operation op s)))
      = transaction_items (sale (apply_operation op s)) @ new2" by blast
  from 1 2 show ?case by simp
qed

text \<open>
  Claim C9. After a line item has been created, no operation replaces its unit price
  or its total price: whatever sequence of changes to the items, price changes
  included, of calls of the \<open>Item\<close> methods, of calls of
  \<open>Transaction.calculate_totals\<close> and of creations of further lines follows, the
  lines the transaction had are still there, in place and unchanged, and anything new
  comes after them. In particular their unit prices and total prices are the ones
  stored at their creation.
\<close>

theorem existing_line_items_keep_their_prices:
  "(\<exists>new. transaction_items (sale (apply_operations ops s)) = transaction_items (sale s) @ new)
   \<and> take (length (transaction_items (sale s)))
        (map unit_price (transaction_items (sale (apply_operations ops s))))
      = map unit_price (transaction_items (sale s))
   \<and> take (length (transaction_items (sale s)))
        (map total_price (transaction_items (sale (apply_operations ops s))))
      = map total_price (transaction_items (sale s))"
proof -
  from apply_operations_keep_lines [of ops s]
  obtain new where "transaction_items (sale (apply_operations ops s))
      = transaction_items (sale s) @ new" by blast
  then show ?thesis by simp
qed

text \<open>At a concrete sale: a line of two retail units sold at 1100.00; the price is
  then raised to 1500.00 and a further unit is sold. The new line carries 1500.00, the
  existing one still 1100.00 and its total 2200.00.\<close>

theorem existing_line_items_keep_their_prices_witness:
  "map unit_price (transaction_items (sale sold_shop)) = [Dec 110000 (- 2)]
   \<and> map total_price (transaction_items (sale sold_shop)) = [Dec 220000 (- 2)]
   \<and> get_price_by_unit (stored_items (apply_operations reprice_and_sell sold_shop) 1) ECER
       = Dec 150000 (- 2)
   \<and> map unit_price (transaction_items (sale (apply_operations reprice_and_sell sold_shop)))
       = [Dec 110000 (- 2), Dec 150000 (- 2)]
   \<and> map total_price (transaction_items (sale (apply_operations reprice_and_sell sold_shop)))
       = [Dec 220000 (- 2), Dec 150000 (- 2)]
   \<and> take (length (transaction_items (sale sold_shop)))
        (map unit_price (transaction_items (sale (apply_operations reprice_and_sell sold_shop))))
      = [Dec 110000 (- 2)]"
proof -
  have a: "map unit_price (transaction_items (sale sold_shop)) = [Dec 110000 (- 2)]"
    "map total_price (transaction_items (sale sold_shop)) = [Dec 220000 (- 2)]"
    "get_price_by_unit (stored_items (apply_operations reprice_and_sell sold_shop) 1) ECER
       = Dec 150000 (- 2)"
    "map unit_price (transaction_items (sale (apply_operations reprice_and_sell sold_shop)))
       = [Dec 110000 (- 2), Dec 150000 (- 2)]"
    "map total_price (transaction_items (sale (apply_operations reprice_and_sell sold_shop)))
       = [Dec 220000 (- 2), Dec 150000 (- 2)]"
    by code_simp+
  from existing_line_items_keep_their_prices [of reprice_and_sell sold_shop]
  have "take (length (transaction_items (sale sold_shop)))
        (map unit_price (transaction_items (sale (apply_operations reprice_and_sell sold_shop))))
      = map unit_price (transaction_items (sale sold_shop))"
    by blast
  with a show ?thesis by (simp only:)
qed

section \<open>Transaction totals\<close>

text \<open>
  Claim C2, at a transaction with line totals \<open>9999999999999999999999999999\<close> and
  0.01: the sum needs 30 digits and is rounded to 28, so the subtotal that
  \<open>Transaction.calculate_totals\<close> stores is not the sum of the line totals.
\<close>

theorem calculate_totals_subtotal_rounded:
  "fst (Transaction_calculate_totals rounding_transaction) = None
   \<and> map total_price (transaction_items rounding_transaction)
       = [Dec 9999999999999999999999999999 0, Dec 1 (- 2)]
   \<and> subtotal (snd (Transaction_calculate_totals rounding_transaction))
       = Dec 9999999999999999999999999999 0
   \<and> dec_value (subtotal (snd (Transaction_calculate_totals rounding_transaction)))
       \<noteq> sum_list (map (\<lambda>l. dec_value (total_price l))
                   (transaction_items rounding_transaction))"
  by code_simp

text \<open>
  Claim C2, within the range of the decimal context. For a transaction whose line
  totals, tax, discount and payment are amounts of money adding up, in absolute value,
  to less than \<open>10^28\<close> cents, \<open>Transaction.calculate_totals\<close> returns and changes
  nothing but subtotal, total and change: the subtotal is exactly the sum of the total
  prices of the current line items, whatever subtotal, total and change were stored
  before (it is recomputed, not updated); the total is exactly subtotal plus tax minus
  discount; and the change is the larger of zero and payment minus total.
\<close>

theorem calculate_totals_aggregates:
  assumes "money_transaction t"
  shows "\<exists>t'. Transaction_calculate_totals t = (None, t')
           \<and> t' = t\<lparr>subtotal := subtotal t', total_amount := total_amount t',
                     change_amount := change_amount t'\<rparr>
           \<and> dec_value (subtotal t')
               = sum_list (map (\<lambda>l. dec_value (total_price l)) (transaction_items t))
           \<and> dec_value (total_amount t')
               = dec_value (subtotal t') + dec_value (tax_amount t) - dec_value (discount_amount t)
           \<and> dec_value (change_amount t')
               = max 0 (dec_value (payment_amount t) - dec_value (total_amount t'))
           \<and> Transaction_calculate_totals
                 (t\<lparr>subtotal := s, total_amount := a, change_amount := c\<rparr>) = (None, t')"
proof -
  from calculate_totals_values [OF assms]
  obtain t' where t': "Transaction_calculate_totals t = (None, t')"
    "t' = t\<lparr>subtotal := subtotal t', total_amount := total_amount t',
              change_amount := change_amount t'\<rparr>"
    "dec_value (subtotal t')
       = sum_list (map (\<lambda>l. dec_value (total_price l)) (transaction_items t))"
    "dec_value (total_amount t')
       = dec_value (subtotal t') + dec_value (tax_amount t) - dec_value (discount_amount t)"
    "dec_value (change_amount t')
       = max 0 (dec_value (payment_amount t) - dec_value (total_amount t'))"
    by blast
  have "Transaction_calculate_totals (t\<lparr>subtotal := s, total_amount := a, change_amount := c\<rparr>)
          = (None, t')"
    using Transaction_calculate_totals_fresh [where t = t and s = s and a = a and c = c] t'(1)
    by simp
  with t' show ?thesis by blast
qed

theorem calculate_totals_aggregates_witness:
  "money_transaction (scenario_transaction (Dec 17000 0))
   \<and> (\<exists>t'. Transaction_calculate_totals (scenario_transaction (Dec 17000 0)) = (None, t')
          \<and> dec_value (subtotal t') = 15000
          \<and> dec_value (total_amount t') = 16000
          \<and> dec_value (change_amount t') = 1000)"
proof -
  have h: "money_transaction (scenario_transaction (Dec 17000 0))"
    by code_simp
  have v: "sum_list (map (\<lambda>l. dec_value (total_price l))
             (transaction_items (scenario_transaction (Dec 17000 0)))) = 15000"
    "dec_value (tax_amount (scenario_transaction (Dec 17000 0))) = 1500"
    "dec_value (discount_amount (scenario_transaction (Dec 17000 0))) = 500"
    "dec_value (payment_amount (scenario_transaction (Dec 17000 0))) = 17000"
    by code_simp+
  from calculate_totals_aggregates [OF h, of "Dec 0 0" "Dec 0 0" "Dec 0 0"]
  obtain t' where t': "Transaction_calculate_totals (scenario_transaction (Dec 17000 0)) = (None, t')"
    "dec_value (subtotal t')
       = sum_list (map (\<lambda>l. dec_value (total_price l))
           (transaction_items (scenario_transaction (Dec 17000 0))))"
    "dec_value (total_amount t')
       = dec_value (subtotal t') + dec_value (tax_amount (scenario_transaction (Dec 17000 0)))
         - dec_value (discount_amount (scenario_transaction (Dec 17000 0)))"
    "dec_value (change_amount t')
       = max 0 (dec_value (payment_amount (scenario_transaction (Dec 17000 0)))
                - dec_value (total_amount t'))"
    by blast
  have "dec_value (subtotal t') = 15000" "dec_value (total_amount t') = 16000"
    "dec_value (change_amount t') = 1000"
    by (simp_all add: t' v)
  with t'(1) h show ?thesis by blast
qed

text \<open>
  Claim C10, at a transaction with one line of \<open>9999999999999999999999999999\<close>, tax
  0.6 and discount \<open>9999999999999999999999999999.8\<close>: the discount exceeds subtotal
  plus tax, but subtotal plus tax is rounded up to \<open>1E+28\<close> and the total that
  \<open>Transaction.calculate_totals\<close> stores is 0.2, which is not negative.
\<close>

theorem calculate_totals_total_sign_rounded:
  "sum_list (map (\<lambda>l. dec_value (total_price l)) (transaction_items huge_transaction))
      + dec_value (tax_amount huge_transaction)
     < dec_value (discount_amount huge_transaction)
   \<and> fst (Transaction_calculate_totals huge_transaction) = None
   \<and> total_amount (snd (Transaction_calculate_totals huge_transaction)) = Dec 2 (- 1)
   \<and> \<not> dec_value (total_amount (snd (Transaction_calculate_totals huge_transaction))) < 0"
  by code_simp

text \<open>
  Claim C10, within the range of the decimal context. Whenever
  \<open>Transaction.calculate_totals\<close> returns, the change it stores is not below zero.
  For a transaction whose amounts are money adding up to less than \<open>10^28\<close> cents, the
  change is zero whenever the payment is below the total, and the total is exactly the
  sum of the line totals plus tax minus discount, with no clamp: it is negative
  whenever the discount exceeds subtotal plus tax, also with no line items, where the
  subtotal is recomputed as 0. It has no floor at zero: for every \<open>n\<close> cents below
  \<open>10^28\<close>, the transaction with no lines, no tax and that discount gets the total
  minus \<open>n\<close> cents.
\<close>

theorem calculate_totals_change_clamped_total_unbounded:
  "(fst (Transaction_calculate_totals t) = None
      \<longrightarrow> dec_lt (change_amount (snd (Transaction_calculate_totals t))) (Dec 0 0) = Inr False)
   \<and> (money_transaction t
      \<longrightarrow> (\<exists>t'. Transaction_calculate_totals t = (None, t')
             \<and> 0 \<le> dec_value (change_amount t')
             \<and> (dec_value (payment_amount t) < dec_value (total_amount t')
                  \<longrightarrow> dec_value (change_amount t') = 0)
             \<and> dec_value (total_amount t')
                 = sum_list (map (\<lambda>l. dec_value (total_price l)) (transaction_items t))
                   + dec_value (tax_amount t) - dec_value (discount_amount t)
             \<and> (sum_list (map (\<lambda>l. dec_value (total_price l)) (transaction_items t))
                   + dec_value (tax_amount t) < dec_value (discount_amount t)
                  \<longrightarrow> dec_value (total_amount t') < 0)
             \<and> (transaction_items t = []
                  \<longrightarrow> dec_value (subtotal t') = 0
                      \<and> (dec_value (tax_amount t) < dec_value (discount_amount t)
                           \<longrightarrow> dec_value (total_amount t') < 0))))
   \<and> (0 < n \<and> n < 10 ^ nat prec \<and> transaction_items t = [] \<and> tax_amount t = Dec 0 0
        \<and> discount_amount t = Dec n (- 2) \<and> payment_amount t = Dec 0 0
      \<longrightarrow> (\<exists>t'. Transaction_calculate_totals t = (None, t')
             \<and> dec_value (total_amount t') = - of_int n / 100))"
proof (intro conjI impI)
  assume "fst (Transaction_calculate_totals t) = None"
  from Transaction_calculate_totals_change [OF this]
  show "dec_lt (change_amount (snd (Transaction_calculate_totals t))) (Dec 0 0) = Inr False"
    by (auto dest: py_max_zero_not_negative)
next
  assume "money_transaction t"
  from calculate_totals_values [OF this]
  show "\<exists>t'. Transaction_calculate_totals t = (None, t')
             \<and> 0 \<le> dec_value (change_amount t')
             \<and> (dec_value (payment_amount t) < dec_value (total_amount t')
                  \<longrightarrow> dec_value (change_amount t') = 0)
             \<and> dec_value (total_amount t')
                 = sum_list (map (\<lambda>l. dec_value (total_price l)) (transaction_items t))
                   + dec_value (tax_amount t) - dec_value (discount_amount t)
             \<and> (sum_list (map (\<lambda>l. dec_value (total_price l)) (transaction_items t))
                   + dec_value (tax_amount t) < dec_value (discount_amount t)
                  \<longrightarrow> dec_value (total_amount t') < 0)
             \<and> (transaction_items t = []
                  \<longrightarrow> dec_value (subtotal t') = 0
                      \<and> (dec_value (tax_amount t) < dec_value (discount_amount t)
                           \<longrightarrow> dec_value (total_amount t') < 0))"
    by (auto simp add: max_def)
next
  assume h: "0 < n \<and> n < 10 ^ nat prec \<and> transaction_items t = [] \<and> tax_amount t = Dec 0 0
        \<and> discount_amount t = Dec n (- 2) \<and> payment_amount t = Dec 0 0"
  then have "money_transaction t" by (simp add: money_transaction_def money_total_def)
  from calculate_totals_values [OF this] h
  show "\<exists>t'. Transaction_calculate_totals t = (None, t')
             \<and> dec_value (total_amount t') = - of_int n / 100"
    by auto
qed

theorem calculate_totals_change_clamped_total_unbounded_witness:
  "fst (Transaction_calculate_totals (scenario_transaction (Dec 10000 0))) = None
   \<and> dec_lt (change_amount (snd (Transaction_calculate_totals
        (scenario_transaction (Dec 10000 0))))) (Dec 0 0) = Inr False
   \<and> money_transaction (scenario_transaction (Dec 10000 0))
   \<and> (\<exists>t'. Transaction_calculate_totals (scenario_transaction (Dec 10000 0)) = (None, t')
          \<and> dec_value (payment_amount (scenario_transaction (Dec 10000 0)))
              < dec_value (total_amount t')
          \<and> dec_value (total_amount t') = 16000
          \<and> dec_value (change_amount t') = 0)
   \<and> money_transaction discounted_empty
   \<and> transaction_items discounted_empty = []
   \<and> dec_value (tax_amount discounted_empty) < dec_value (discount_amount discounted_empty)
   \<and> (\<exists>t'. Transaction_calculate_totals discounted_empty = (None, t')
          \<and> dec_value (subtotal t') = 0
          \<and> dec_value (total_amount t') < 0
          \<and> dec_value (total_amount t') = - 400)
   \<and> (0::int) < 50000 \<and> (50000::int) < 10 ^ nat prec
   \<and> (\<exists>t'. Transaction_calculate_totals
               (sample_transaction [] (Dec 0 0) (Dec 50000 (- 2)) (Dec 0 0)) = (None, t')
          \<and> dec_value (total_amount t') = - 500)"
proof -
  let ?u = "scenario_transaction (Dec 10000 0)"
  let ?e = "discounted_empty"
  let ?n = "sample_transaction [] (Dec 0 0) (Dec 50000 (- 2)) (Dec 0 0)"
  have h: "fst (Transaction_calculate_totals ?u) = None" "money_transaction ?u"
    "money_transaction ?e" "transaction_items ?e = []"
    "dec_value (tax_amount ?e) < dec_value (discount_amount ?e)"
    "(0::int) < 50000" "(50000::int) < 10 ^ nat prec"
    "transaction_items ?n = []" "tax_amount ?n = Dec 0 0"
    "discount_amount ?n = Dec 50000 (- 2)" "payment_amount ?n = Dec 0 0"
    by code_simp+
  have v: "sum_list (map (\<lambda>l. dec_value (total_price l)) (transaction_items ?u)) = 15000"
    "dec_value (tax_amount ?u) = 1500" "dec_value (discount_amount ?u) = 500"
    "dec_value (payment_amount ?u) = 10000"
    "dec_value (tax_amount ?e) = 100" "dec_value (discount_amount ?e) = 500"
    by code_simp+
  note fu = calculate_totals_change_clamped_total_unbounded [where t = ?u and n = 50000]
  note fe = calculate_totals_change_clamped_total_unbounded [where t = ?e and n = 50000]
  note fn = calculate_totals_change_clamped_total_unbounded [where t = ?n and n = 50000]
  have 1: "dec_lt (change_amount (snd (Transaction_calculate_totals ?u))) (Dec 0 0) = Inr False"
    using fu h(1) by blast
  from fu h(2) obtain t' where t': "Transaction_calculate_totals ?u = (None, t')"
    "dec_value (payment_amount ?u) < dec_value (total_amount t')
       \<longrightarrow> dec_value (change_amount t') = 0"
    "dec_value (total_amount t')
       = sum_list (map (\<lambda>l. dec_value (total_price l)) (transaction_items ?u))
         + dec_value (tax_amount ?u) - dec_value (discount_amount ?u)"
    by blast
  have t16: "dec_value (total_amount t') = 16000" by (simp add: t'(3) v)
  then have below: "dec_value (payment_amount ?u) < dec_value (total_amount t')"
    by (simp add: v)
  with t'(2) have "dec_value (change_amount t') = 0" by blast
  with t'(1) below t16
  have 2: "\<exists>t'. Transaction_calculate_totals ?u = (None, t')
          \<and> dec_value (payment_amount ?u) < dec_value (total_amount t')
          \<and> dec_value (total_amount t') = 16000
          \<and> dec_value (change_amount t') = 0"
    by blast
  from fe h(3) obtain e' where e': "Transaction_calculate_totals ?e = (None, e')"
    "dec_value (total_amount e')
       = sum_list (map (\<lambda>l. dec_value (total_price l)) (transaction_items ?e))
         + dec_value (tax_amount ?e) - dec_value (discount_amount ?e)"
    "transaction_items ?e = []
       \<longrightarrow> dec_value (subtotal e') = 0
           \<and> (dec_value (tax_amount ?e) < dec_value (discount_amount ?e)
                \<longrightarrow> dec_value (total_amount e') < 0)"
    by blast
  from e'(3) h(4) h(5) have "dec_value (subtotal e') = 0" "dec_value (total_amount e') < 0"
    by blast+
  moreover have "dec_value (total_amount e') = - 400" by (simp add: e'(2) h(4) v)
  ultimately have 3: "\<exists>t'. Transaction_calculate_totals ?e = (None, t')
          \<and> dec_value (subtotal t') = 0
          \<and> dec_value (total_amount t') < 0
          \<and> dec_value (total_amount t') = - 400"
    using e'(1) by blast
  from fn h(6-11) obtain n' where "Transaction_calculate_totals ?n = (None, n')"
    "dec_value (total_amount n') = - of_int 50000 / 100"
    by blast
  then have 4: "\<exists>t'. Transaction_calculate_totals ?n = (None, t')
          \<and> dec_value (total_amount t') = - 500"
    by auto
  from h(1) 1 h(2) 2 h(3) h(4) h(5) 3 h(6) h(7) 4 show ?thesis
    by (intro conjI)
qed

section \<open>Stock ledger\<close>

text \<open>
  Claim C1. Whenever the stock plus the change is negative, \<open>apply_movement\<close> fails
  with \<open>NegativeStockError\<close> and returns the item and the ledger as they were, with no
  entry written. Otherwise it succeeds: the item's stock becomes the old stock plus the
  change, exactly one entry is appended, and that entry records the old stock, the
  change and a new stock equal to their sum and not negative. So whenever the call
  succeeds the stock is not negative afterwards, and a stock that was not negative
  before the call is not negative after it.
\<close>

theorem apply_movement_rejects_negative_stock:
  "(stock_quantity item + change < 0
      \<longrightarrow> apply_movement item led mt change rsn actor rel now
            = (Some NegativeStockError, item, led))
   \<and> (0 \<le> stock_quantity item + change
      \<longrightarrow> (\<exists>entry. apply_movement item led mt change rsn actor rel now
              = (None, item\<lparr>stock_quantity := stock_quantity item + change\<rparr>, led @ [entry])
            \<and> previous_stock entry = stock_quantity item
            \<and> quantity_change entry = change
            \<and> new_stock entry = previous_stock entry + quantity_change entry
            \<and> 0 \<le> new_stock entry))
   \<and> (fst (apply_movement item led mt change rsn actor rel now) = None
      \<longrightarrow> 0 \<le> stock_quantity (fst (snd (apply_movement item led mt change rsn actor rel now))))
   \<and> (0 \<le> stock_quantity item
      \<longrightarrow> 0 \<le> stock_quantity (fst (snd (apply_movement item led mt change rsn actor rel now))))"
  by (simp add: apply_movement_def Let_def)

theorem apply_movement_rejects_negative_stock_witness:
  "stock_quantity sample_item + (- 15) < 0
   \<and> apply_movement sample_item [] ''SALE'' (- 15) [] 1 None 7
       = (Some NegativeStockError, sample_item, [])
   \<and> 0 \<le> stock_quantity sample_item + (- 5)
   \<and> 0 \<le> stock_quantity sample_item
   \<and> fst (apply_movement sample_item [] ''SALE'' (- 5) [] 1 None 7) = None
   \<and> stock_quantity (fst (snd (apply_movement sample_item [] ''SALE'' (- 5) [] 1 None 7))) = 5
   \<and> map new_stock (snd (snd (apply_movement sample_item [] ''SALE'' (- 5) [] 1 None 7))) = [5]"
  using apply_movement_rejects_negative_stock [of sample_item "- 15" "[]" "''SALE''" "[]" 1 None 7]
    apply_movement_rejects_negative_stock [of sample_item "- 5" "[]" "''SALE''" "[]" 1 None 7]
  by (auto simp add: sample_item_def)

section \<open>The line item calculator\<close>

lemma unfulfillable_is_positive:
  assumes "\<not> can_fulfill_order item q ut" and "0 \<le> stock_quantity item"
    and "0 < quantity_per_wholesale item"
  shows "0 < q"
proof (rule ccontr)
  assume "\<not> 0 < q"
  then have q: "q \<le> 0" by simp
  then have "q * quantity_per_wholesale item \<le> 0"
    using assms(3) by (simp add: mult_nonpos_nonneg)
  with q have "convert_to_ecer_quantity item q ut \<le> 0"
    by (simp add: convert_to_ecer_quantity_def)
  with assms(1,2) show False by (simp add: can_fulfill_order_def)
qed

text \<open>
  Claim C4. The Line Item Calculator fails with \<open>InvalidQuantity\<close> whenever the
  quantity is not positive, and with \<open>InsufficientStock\<close> whenever the quantity is
  positive and the item cannot fulfil it in the chosen unit; for an item with a stock
  that is not negative and a positive \<open>quantity_per_wholesale\<close> a request the item
  cannot fulfil has a positive quantity, so it fails with \<open>InsufficientStock\<close>
  whenever the item cannot fulfil the request. It produces a line item only when the
  quantity is positive and the item can fulfil it; and then, for a price that is an
  amount of money with quantity times price below \<open>10^28\<close> cents, it does produce
  the line, with the fields of section 4.3.
\<close>

theorem line_item_calculator_failures:
  "(q \<le> 0 \<longrightarrow> line_item_calculator tid item q ut = Inl InvalidQuantity)
   \<and> (0 < q \<and> \<not> can_fulfill_order item q ut
        \<longrightarrow> line_item_calculator tid item q ut = Inl InsufficientStock)
   \<and> (\<not> can_fulfill_order item q ut \<and> 0 \<le> stock_quantity item
        \<and> 0 < quantity_per_wholesale item
        \<longrightarrow> line_item_calculator tid item q ut = Inl InsufficientStock)
   \<and> (line_item_calculator tid item q ut = Inr l
        \<longrightarrow> 0 < q \<and> can_fulfill_order item q ut)
   \<and> (0 < q \<and> can_fulfill_order item q ut \<and> is_money (get_price_by_unit item ut)
        \<and> \<bar>q * cents (get_price_by_unit item ut)\<bar> < 10 ^ nat prec
        \<longrightarrow> (\<exists>l'. line_item_calculator tid item q ut = Inr l'
               \<and> quantity l' = q \<and> unit_type l' = ut
               \<and> unit_price l' = get_price_by_unit item ut
               \<and> dec_value (total_price l') = of_int q * dec_value (unit_price l')
               \<and> ecer_quantity l' = convert_to_ecer_quantity item q ut))"
proof (intro conjI impI)
  assume "q \<le> 0"
  then show "line_item_calculator tid item q ut = Inl InvalidQuantity"
    by (simp add: line_item_calculator_def)
next
  assume "0 < q \<and> \<not> can_fulfill_order item q ut"
  then show "line_item_calculator tid item q ut = Inl InsufficientStock"
    by (simp add: line_item_calculator_def)
next
  assume h: "\<not> can_fulfill_order item q ut \<and> 0 \<le> stock_quantity item
        \<and> 0 < quantity_per_wholesale item"
  then have "0 < q" using unfulfillable_is_positive [of item q ut] by blast
  with h show "line_item_calculator tid item q ut = Inl InsufficientStock"
    by (simp add: line_item_calculator_def)
next
  assume "line_item_calculator tid item q ut = Inr l"
  then show "0 < q"
    by (auto simp add: line_item_calculator_def split: if_splits)
next
  assume "line_item_calculator tid item q ut = Inr l"
  then show "can_fulfill_order item q ut"
    by (auto simp add: line_item_calculator_def split: if_splits)
next
  let ?new = "\<lparr>TransactionItem_id = None, transaction_id = tid, item_id = Item_id item,
                quantity = q, unit_type = ut, unit_price = Dec 0 0, total_price = Dec 0 0,
                ecer_quantity = 0\<rparr>"
  assume h: "0 < q \<and> can_fulfill_order item q ut \<and> is_money (get_price_by_unit item ut)
        \<and> \<bar>q * cents (get_price_by_unit item ut)\<bar> < 10 ^ nat prec"
  then have m: "is_money (get_price_by_unit item (unit_type ?new))"
    and b: "\<bar>quantity ?new * cents (get_price_by_unit item (unit_type ?new))\<bar> < 10 ^ nat prec"
    by simp_all
  from TransactionItem_calculate_totals_money [OF m b]
  obtain T where r: "TransactionItem_calculate_totals ?new item
      = (None, ?new\<lparr>unit_price := get_price_by_unit item ut, total_price := T,
                      ecer_quantity := convert_to_ecer_quantity item q ut\<rparr>)"
    and T: "is_money T" "cents T = q * cents (get_price_by_unit item ut)"
    by auto
  have v: "dec_value T = of_int q * dec_value (get_price_by_unit item ut)"
    using h by (simp add: money_value T)
  from h r v
  show "\<exists>l'. line_item_calculator tid item q ut = Inr l'
               \<and> quantity l' = q \<and> unit_type l' = ut
               \<and> unit_price l' = get_price_by_unit item ut
               \<and> dec_value (total_price l') = of_int q * dec_value (unit_price l')
               \<and> ecer_quantity l' = convert_to_ecer_quantity item q ut"
    by (simp add: line_item_calculator_def)
qed

theorem line_item_calculator_failures_witness:
  "(0::int) \<le> 0 \<and> line_item_calculator 1 sample_item 0 ECER = Inl InvalidQuantity
   \<and> (0::int) < 3 \<and> \<not> can_fulfill_order sample_item 3 GROSIR
   \<and> 0 \<le> stock_quantity sample_item \<and> 0 < quantity_per_wholesale sample_item
   \<and> line_item_calculator 1 sample_item 3 GROSIR = Inl InsufficientStock
   \<and> (0::int) < 1 \<and> can_fulfill_order sample_item 1 GROSIR
   \<and> is_money (get_price_by_unit sample_item GROSIR)
   \<and> \<bar>1 * cents (get_price_by_unit sample_item GROSIR)\<bar> < 10 ^ nat prec
   \<and> (\<exists>l. line_item_calculator 1 sample_item 1 GROSIR = Inr l
          \<and> dec_value (unit_price l) = 5000 \<and> dec_value (total_price l) = 5000
          \<and> ecer_quantity l = 5)"
proof -
  have a: "\<not> can_fulfill_order sample_item 3 GROSIR" "0 \<le> stock_quantity sample_item"
    "0 < quantity_per_wholesale sample_item" "can_fulfill_order sample_item 1 GROSIR"
    "is_money (get_price_by_unit sample_item GROSIR)"
    "\<bar>1 * cents (get_price_by_unit sample_item GROSIR)\<bar> < 10 ^ nat prec"
    by code_simp+
  have v: "dec_value (get_price_by_unit sample_item GROSIR) = 5000"
    "convert_to_ecer_quantity sample_item 1 GROSIR = 5"
    by code_simp+
  have 1: "line_item_calculator 1 sample_item 0 ECER = Inl InvalidQuantity"
    using line_item_calculator_failures [of 0 1 sample_item ECER] by simp
  have 2: "line_item_calculator 1 sample_item 3 GROSIR = Inl InsufficientStock"
    using line_item_calculator_failures [of 3 1 sample_item GROSIR] a by simp
  from line_item_calculator_failures [of 1 1 sample_item GROSIR] a
  obtain l where l: "line_item_calculator 1 sample_item 1 GROSIR = Inr l"
    "unit_price l = get_price_by_unit sample_item GROSIR"
    "dec_value (total_price l) = of_int 1 * dec_value (unit_price l)"
    "ecer_quantity l = convert_to_ecer_quantity sample_item 1 GROSIR"
    by auto
  have "dec_value (unit_price l) = 5000" "dec_value (total_price l) = 5000"
    "ecer_quantity l = 5"
    by (simp_all add: l v)
  with l(1) have "\<exists>l. line_item_calculator 1 sample_item 1 GROSIR = Inr l
          \<and> dec_value (unit_price l) = 5000 \<and> dec_value (total_price l) = 5000
          \<and> ecer_quantity l = 5"
    by blast
  with a 1 2 show ?thesis by simp
qed

section \<open>Finalizing a transaction\<close>

lemma finalize_frame:
  "status (txn (snd (finalize tax discount payment s))) = status (txn s)"
  "items (snd (finalize tax discount payment s)) = items s"
  "ledger (snd (finalize tax discount payment s)) = ledger s"
proof -
  let ?t = "(txn s)\<lparr>tax_amount := tax, discount_amount := discount, payment_amount := payment\<rparr>"
  have "status (snd (Transaction_calculate_totals ?t)) = status (txn s)"
    by (simp add: Transaction_calculate_totals_keeps)
  then show "status (txn (snd (finalize tax discount payment s))) = status (txn s)"
    by (auto simp add: finalize_def split: prod.splits option.splits sum.splits)
  show "items (snd (finalize tax discount payment s)) = items s"
    by (auto simp add: finalize_def split: prod.splits option.splits sum.splits)
  show "ledger (snd (finalize tax discount payment s)) = ledger s"
    by (auto simp add: finalize_def split: prod.splits option.splits sum.splits)
qed

lemma finalize_failure_keeps_state:
  "fst (finalize tax discount payment s) \<noteq> None \<Longrightarrow> snd (finalize tax discount payment s) = s"
  by (auto simp add: finalize_def split: prod.splits option.splits sum.splits if_splits)

lemma finalize_underpaid:
  assumes "status (txn s) = PENDING" and "transaction_items (txn s) \<noteq> []"
    and "Transaction_calculate_totals
           ((txn s)\<lparr>tax_amount := tax, discount_amount := discount, payment_amount := payment\<rparr>)
         = (None, t)"
    and "dec_lt (payment_amount t) (total_amount t) = Inr True"
  shows "finalize tax discount payment s = (Some InvalidPayment, s)"
  using assms by (simp add: finalize_def)

lemma finalize_underpaid_money:
  assumes p: "status (txn s) = PENDING" and n: "transaction_items (txn s) \<noteq> []"
    and m: "money_transaction
           ((txn s)\<lparr>tax_amount := tax, discount_amount := discount, payment_amount := payment\<rparr>)"
    and u: "dec_value payment
           < sum_list (map (\<lambda>l. dec_value (total_price l)) (transaction_items (txn s)))
             + dec_value tax - dec_value discount"
  shows "finalize tax discount payment s = (Some InvalidPayment, s)"
proof -
  let ?t = "(txn s)\<lparr>tax_amount := tax, discount_amount := discount, payment_amount := payment\<rparr>"
  from Transaction_calculate_totals_money [OF m]
  obtain S T C where r: "Transaction_calculate_totals ?t
                  = (None, ?t\<lparr>subtotal := S, total_amount := T, change_amount := C\<rparr>)"
    and mm: "is_money S" "is_money T" "is_money C"
    and S: "cents S = sum_list (map (\<lambda>l. cents (total_price l)) (transaction_items ?t))"
    and T: "cents T = cents S + cents (tax_amount ?t) - cents (discount_amount ?t)"
    by blast
  from m have lines: "list_all is_money (map total_price (transaction_items (txn s)))"
    and tax: "is_money tax" and disc: "is_money discount" and pay: "is_money payment"
    by (simp_all add: money_transaction_def list.pred_map comp_def)
  have "sum_list (map (\<lambda>l. dec_value (total_price l)) (transaction_items (txn s)))
      = of_int (cents S) / 100"
    using money_values_sum [OF lines] by (simp add: S comp_def)
  with u have "of_int (cents payment) / (100::rat) < of_int (cents T) / 100"
    by (simp add: money_value tax disc pay T add_divide_distrib diff_divide_distrib)
  then have "cents payment < cents T" by (simp add: divide_less_cancel)
  then have "dec_lt payment T = Inr True"
    by (simp add: dec_lt_def dec_gt_money [OF mm(2) pay])
  with r p n show ?thesis by (simp add: finalize_def)
qed

text \<open>
  Claim C5. On a pending transaction with at least one line, \<open>finalize\<close> fails with
  \<open>InvalidPayment\<close> whenever the payment is below the recomputed total, which for
  amounts of money within range is the sum of the line totals plus tax minus discount.
  A failing \<open>finalize\<close> leaves the whole state as it was, so the transaction stays
  pending; and \<open>finalize\<close> never changes the status, the stored items or the ledger,
  failing or not, so it debits no stock.
\<close>

theorem finalize_rejects_underpayment:
  "(status (txn s) = PENDING \<and> transaction_items (txn s) \<noteq> []
      \<and> Transaction_calculate_totals
           ((txn s)\<lparr>tax_amount := tax, discount_amount := discount, payment_amount := payment\<rparr>)
         = (None, t)
      \<and> dec_lt (payment_amount t) (total_amount t) = Inr True
      \<longrightarrow> finalize tax discount payment s = (Some InvalidPayment, s))
   \<and> (status (txn s) = PENDING \<and> transaction_items (txn s) \<noteq> []
      \<and> money_transaction
           ((txn s)\<lparr>tax_amount := tax, discount_amount := discount, payment_amount := payment\<rparr>)
      \<and> dec_value payment
           < sum_list (map (\<lambda>l. dec_value (total_price l)) (transaction_items (txn s)))
             + dec_value tax - dec_value discount
      \<longrightarrow> finalize tax discount payment s = (Some InvalidPayment, s))
   \<and> (fst (finalize tax discount payment s) \<noteq> None
      \<longrightarrow> snd (finalize tax discount payment s) = s)
   \<and> status (txn (snd (finalize tax discount payment s))) = status (txn s)
   \<and> items (snd (finalize tax discount payment s)) = items s
   \<and> ledger (snd (finalize tax discount payment s)) = ledger s"
  using finalize_underpaid [where s = s and tax = tax and discount = discount
      and payment = payment and t = t]
    finalize_underpaid_money [where s = s and tax = tax and discount = discount
      and payment = payment]
    finalize_failure_keeps_state [where s = s and tax = tax and discount = discount
      and payment = payment]
    finalize_frame [where s = s and tax = tax and discount = discount and payment = payment]
  by blast

theorem finalize_rejects_underpayment_witness:
  "status (txn scenario_state) = PENDING \<and> transaction_items (txn scenario_state) \<noteq> []
   \<and> money_transaction
        ((txn scenario_state)\<lparr>tax_amount := Dec 1500 0, discount_amount := Dec 500 0,
                               payment_amount := Dec 10000 0\<rparr>)
   \<and> dec_value (Dec 10000 0)
        < sum_list (map (\<lambda>l. dec_value (total_price l)) (transaction_items (txn scenario_state)))
          + dec_value (Dec 1500 0) - dec_value (Dec 500 0)
   \<and> finalize (Dec 1500 0) (Dec 500 0) (Dec 10000 0) scenario_state
       = (Some InvalidPayment, scenario_state)
   \<and> fst (finalize (Dec 1500 0) (Dec 500 0) (Dec 10000 0) scenario_state) \<noteq> None
   \<and> status (txn (snd (finalize (Dec 1500 0) (Dec 500 0) (Dec 10000 0) scenario_state)))
       = PENDING
   \<and> ledger (snd (finalize (Dec 1500 0) (Dec 500 0) (Dec 10000 0) scenario_state)) = []"
proof -
  have a: "status (txn scenario_state) = PENDING" "transaction_items (txn scenario_state) \<noteq> []"
    "money_transaction
        ((txn scenario_state)\<lparr>tax_amount := Dec 1500 0, discount_amount := Dec 500 0,
                               payment_amount := Dec 10000 0\<rparr>)"
    "dec_value (Dec 10000 0)
        < sum_list (map (\<lambda>l. dec_value (total_price l)) (transaction_items (txn scenario_state)))
          + dec_value (Dec 1500 0) - dec_value (Dec 500 0)"
    "ledger scenario_state = []"
    by code_simp+
  note f = finalize_rejects_underpayment
             [where s = scenario_state and tax = "Dec 1500 0" and discount = "Dec 500 0"
                and payment = "Dec 10000 0" and t = "txn scenario_state"]
  have r: "finalize (Dec 1500 0) (Dec 500 0) (Dec 10000 0) scenario_state
       = (Some InvalidPayment, scenario_state)"
    using f a by blast
  have s: "status (txn (snd (finalize (Dec 1500 0) (Dec 500 0) (Dec 10000 0) scenario_state)))
       = PENDING"
    using f a(1) by simp
  have l: "ledger (snd (finalize (Dec 1500 0) (Dec 500 0) (Dec 10000 0) scenario_state)) = []"
    using f a(5) by simp
  have n: "fst (finalize (Dec 1500 0) (Dec 500 0) (Dec 10000 0) scenario_state) \<noteq> None"
    by (simp add: r)
  from a r n s l show ?thesis by (intro conjI)
qed

section \<open>The status of a transaction\<close>

lemma terminal_step_rejected:
  "status (txn s) \<noteq> PENDING \<Longrightarrow> aggregator_step op s = (Some InvalidStateTransition, s)"
  by (cases op) (simp_all add: add_line_def finalize_def commit_def cancel_def)

lemma terminal_run_stays:
  "status (txn s) \<noteq> PENDING \<Longrightarrow> aggregator_run ops s = s"
  by (induction ops) (simp_all add: terminal_step_rejected)

lemma step_status:
  "status (txn (snd (aggregator_step op s))) = status (txn s)
   \<or> (status (txn s) = PENDING
       \<and> (status (txn (snd (aggregator_step op s))) = COMPLETED
          \<or> status (txn (snd (aggregator_step op s))) = CANCELLED))"
proof (cases op)
  case (AddLine item q ut)
  then show ?thesis by (simp add: add_line_def split: sum.split)
next
  case (Finalize tax discount payment)
  then show ?thesis by (simp add: finalize_frame)
next
  case (Commit now)
  then show ?thesis
    by (simp add: commit_def split: prod.split option.split)
next
  case Cancel
  then show ?thesis by (simp add: cancel_def)
qed

lemma commit_completes:
  assumes "status (txn s) = PENDING" and "finalized s"
    and "fst (debit_lines (transaction_items (txn s)) (user_id (txn s)) now (items s) (ledger s))
           = None"
  shows "status (txn (snd (commit now s))) = COMPLETED"
proof (cases "debit_lines (transaction_items (txn s)) (user_id (txn s)) now (items s) (ledger s)")
  case (fields e store led)
  with assms have "e = None" by simp
  with fields assms show ?thesis by (simp add: commit_def)
qed

lemma sample_finalized_facts:
  "status (txn sample_finalized) = PENDING"
  "finalized sample_finalized"
  "fst (debit_lines (transaction_items (txn sample_finalized)) (user_id (txn sample_finalized)) 7
          (items sample_finalized) (ledger sample_finalized)) = None"
  by code_simp+

lemma sample_sale_facts:
  "status (txn sample_sale) = COMPLETED"
  "stock_quantity (items sample_sale 1) = 5"
  "map new_stock (ledger sample_sale) = [5]"
  by code_simp+

text \<open>
  Claim C6. A step of the aggregator changes the status only from Pending, and only to
  Completed or to Cancelled. In a state that is not Pending every operation is rejected
  with \<open>InvalidStateTransition\<close> and leaves the whole state as it was, so no sequence
  of operations leaves Completed or Cancelled. In particular \<open>cancel\<close> on a Completed
  transaction is rejected and the items' stock and the ledger stay as the sale left
  them. Both transitions exist: \<open>cancel\<close> takes a Pending transaction to Cancelled,
  and \<open>commit\<close> takes a Pending, finalized transaction whose debits all succeed to
  Completed.
\<close>

theorem status_transitions_only_from_pending:
  "(status (txn (snd (aggregator_step op s))) \<noteq> status (txn s)
      \<longrightarrow> status (txn s) = PENDING
          \<and> (status (txn (snd (aggregator_step op s))) = COMPLETED
             \<or> status (txn (snd (aggregator_step op s))) = CANCELLED))
   \<and> (status (txn s) \<noteq> PENDING
      \<longrightarrow> aggregator_step op s = (Some InvalidStateTransition, s)
          \<and> aggregator_run ops s = s)
   \<and> (status (txn s) = COMPLETED
      \<longrightarrow> cancel s = (Some InvalidStateTransition, s)
          \<and> items (snd (cancel s)) = items s \<and> ledger (snd (cancel s)) = ledger s)
   \<and> (status (txn s) = PENDING \<longrightarrow> status (txn (snd (cancel s))) = CANCELLED)
   \<and> (status (txn s) = PENDING \<and> finalized s
        \<and> fst (debit_lines (transaction_items (txn s)) (user_id (txn s)) now
                  (items s) (ledger s)) = None
      \<longrightarrow> status (txn (snd (commit now s))) = COMPLETED)"
  using step_status [of op s] commit_completes [of s now]
  by (auto simp add: terminal_step_rejected terminal_run_stays cancel_def)

theorem status_transitions_only_from_pending_witness:
  "status (txn sample_state) = PENDING
   \<and> status (txn (snd (aggregator_step Cancel sample_state))) = CANCELLED
   \<and> status (txn (snd (aggregator_step Cancel sample_state))) \<noteq> status (txn sample_state)
   \<and> status (txn sample_finalized) = PENDING
   \<and> finalized sample_finalized
   \<and> status (txn (snd (commit 7 sample_finalized))) = COMPLETED
   \<and> status (txn sample_sale) = COMPLETED
   \<and> status (txn sample_sale) \<noteq> PENDING
   \<and> aggregator_step Cancel sample_sale = (Some InvalidStateTransition, sample_sale)
   \<and> aggregator_run [Cancel, AddLine sample_item 1 ECER, Commit 8] sample_sale = sample_sale
   \<and> cancel sample_sale = (Some InvalidStateTransition, sample_sale)
   \<and> stock_quantity (items (snd (cancel sample_sale)) 1) = 5
   \<and> map new_stock (ledger (snd (cancel sample_sale))) = [5]"
proof -
  have p: "status (txn sample_state) = PENDING"
    by code_simp
  have c: "status (txn sample_sale) = COMPLETED"
    by (rule sample_sale_facts(1))
  have n: "status (txn sample_sale) \<noteq> PENDING"
    by (simp add: c)
  have a: "status (txn (snd (aggregator_step Cancel sample_state))) = CANCELLED"
    using status_transitions_only_from_pending [of Cancel sample_state "[]" 0] p by simp
  have a': "status (txn (snd (aggregator_step Cancel sample_state))) \<noteq> status (txn sample_state)"
    by (simp only: a p) simp
  have f: "status (txn (snd (commit 7 sample_finalized))) = COMPLETED"
    using status_transitions_only_from_pending [of Cancel sample_finalized "[]" 7]
      sample_finalized_facts by blast
  note b = status_transitions_only_from_pending
             [of Cancel sample_sale "[Cancel, AddLine sample_item 1 ECER, Commit 8]" 0]
  have b1: "aggregator_step Cancel sample_sale = (Some InvalidStateTransition, sample_sale)"
    and b2: "aggregator_run [Cancel, AddLine sample_item 1 ECER, Commit 8] sample_sale = sample_sale"
    using b n by blast+
  have b3: "cancel sample_sale = (Some InvalidStateTransition, sample_sale)"
    and b4: "items (snd (cancel sample_sale)) = items sample_sale"
    and b5: "ledger (snd (cancel sample_sale)) = ledger sample_sale"
    using b c by blast+
  have s: "stock_quantity (items (snd (cancel sample_sale)) 1) = 5"
    by (simp only: b4 sample_sale_facts(2))
  have l: "map new_stock (ledger (snd (cancel sample_sale))) = [5]"
    by (simp only: b5 sample_sale_facts(3))
  from p a a' sample_finalized_facts(1) sample_finalized_facts(2) f c n b1 b2 b3 s l
  show ?thesis
    by (intro conjI)
qed

end
